theory Spec2Isabelle
  imports Main "HOL-Library.Word" "HOL-Library.Multiset"
begin

text \<open>
  The backend of the equipment reports (\<open>backend/server.js\<close> with the model
  \<open>models/Equipment.js\<close>) as functions on an explicit state: the collection of reports
  and the uploads directory. Each route is a function from the runtime a request meets,
  the state and the request to the HTTP answer and the new state. What the libraries do
  (the upload middleware, the schema's setters, casts and validators, the queries) is
  written out where the code relies on it; every \<open>throw\<close> is a value of a sum type and
  every \<open>catch\<close> a case on it.
\<close>

section \<open>JavaScript strings\<close>

text \<open>
  A JavaScript string is a sequence of UTF-16 code units; \<open>length\<close> counts code units,
  as \<open>String.prototype.length\<close> and the \<open>maxlength\<close> validator do.
\<close>

type_synonym jschar = "16 word"
type_synonym jsstring = "jschar list"

definition js :: "string \<Rightarrow> jsstring" where
  "js s = map of_char s"

text \<open>
  \<open>String.prototype.trim\<close> strips the code units of the ECMAScript productions
  WhiteSpace and LineTerminator from both ends.
\<close>

definition isWhiteSpace :: "jschar \<Rightarrow> bool" where
  "isWhiteSpace c \<longleftrightarrow>
     c \<in> set [0x0009, 0x000A, 0x000B, 0x000C, 0x000D, 0x0020, 0x00A0, 0x1680,
              0x2028, 0x2029, 0x202F, 0x205F, 0x3000, 0xFEFF]
     \<or> (0x2000 \<le> c \<and> c \<le> 0x200A)"

definition trim :: "jsstring \<Rightarrow> jsstring" where
  "trim s = rev (dropWhile isWhiteSpace (rev (dropWhile isWhiteSpace s)))"

definition startsWith :: "jsstring \<Rightarrow> jsstring \<Rightarrow> bool" where
  "startsWith s p \<longleftrightarrow> take (length p) s = p"

text \<open>
  \<open>!v\<close> for a field of a request body, which is \<open>undefined\<close> (\<open>None\<close>) or a string:
  only \<open>undefined\<close> and the empty string are falsy.
\<close>

definition falsy :: "jsstring option \<Rightarrow> bool" where
  "falsy v \<longleftrightarrow> (case v of None \<Rightarrow> True | Some s \<Rightarrow> s = [])"

text \<open>Decimal rendering of a number, as in \<open>Date.now() + '-' + name\<close>.\<close>

function digits :: "nat \<Rightarrow> jsstring" where
  "digits n = (if n < 10 then [of_nat (48 + n)]
               else digits (n div 10) @ [of_nat (48 + n mod 10)])"
  by pat_completeness auto
termination
  by (relation "measure id") auto

declare digits.simps [simp del]

definition numberToString :: "int \<Rightarrow> jsstring" where
  "numberToString i = (if i < 0 then js ''-'' @ digits (nat (- i)) else digits (nat i))"

section \<open>The Equipment model (models/Equipment.js)\<close>

type_synonym objectid = "96 word"

record equipment =
  oid :: objectid
  title :: jsstring
  description :: jsstring
  location :: jsstring
  laboratory :: jsstring
  photo :: "jsstring option"
  datetime :: int
  status :: jsstring
  createdAt :: int
  updatedAt :: int

text \<open>One failed schema rule, with the path it belongs to.\<close>

datatype validator_error =
    Required string
  | MaxLength string
  | EnumMismatch string
  | CastFailed string

text \<open>Everything the middleware, the model and the driver can throw.\<close>

datatype multer_code = LIMIT_FILE_SIZE | LIMIT_UNEXPECTED_FILE

datatype js_error =
    PlainError
  | MulterError multer_code
  | ValidationError "validator_error list"
  | CastError
  | MongoError

text \<open>
  What a request sees of the outside world: the clock, the state of the database
  connection, the identifier the driver generates for a new document, and the two
  casts the library applies to strings (\<open>None\<close> when the cast throws): the Date cast,
  which yields the time value of \<open>new Date(s)\<close> unless that is an Invalid Date, and the
  ObjectId cast of a route parameter. One clock reading serves the whole request.
\<close>

record runtime =
  now :: int
  connected :: bool
  newObjectId :: objectid
  castDate :: "jsstring \<Rightarrow> int option"
  castObjectId :: "jsstring \<Rightarrow> objectid option"

definition statusEnum :: "jsstring list" where
  "statusEnum = [js ''pendente'', js ''em_manutencao'', js ''concluido'']"

text \<open>
  A String path with \<open>required\<close> and \<open>maxlength\<close>: the empty string does not satisfy
  \<open>required\<close>, and \<open>maxlength\<close> accepts \<open>v.length <= n\<close>.
\<close>

definition validateText :: "string \<Rightarrow> nat \<Rightarrow> jsstring \<Rightarrow> validator_error list" where
  "validateText path n v =
     (if v = [] then [Required path]
      else if n < length v then [MaxLength path]
      else [])"

definition validateStatus :: "jsstring \<Rightarrow> validator_error list" where
  "validateStatus s = (if s \<in> set statusEnum then [] else [EnumMismatch ''status''])"

text \<open>The value given for \<open>datetime\<close>: a string of the request or a Date object.\<close>

datatype date_input = DateString jsstring | DateObject int

definition schemaCastDate :: "runtime \<Rightarrow> date_input \<Rightarrow> int option" where
  "schemaCastDate rt v = (case v of DateObject d \<Rightarrow> Some d | DateString s \<Rightarrow> castDate rt s)"

text \<open>
  \<open>new Equipment({...})\<close>: every String path with \<open>trim: true\<close> is trimmed by its
  setter, \<open>datetime\<close> is cast to a Date and a new \<open>_id\<close> is generated. The constructor
  does not throw: a failed cast is kept with the document and reported, with the
  failures of the validators of every path, as the ValidationError of \<open>save()\<close>. The
  result is that error, or the document as it will be written (the \<open>timestamps\<close> option
  stamps \<open>createdAt\<close> and \<open>updatedAt\<close>).
\<close>

definition newEquipment ::
  "runtime \<Rightarrow> jsstring \<Rightarrow> jsstring \<Rightarrow> jsstring \<Rightarrow> jsstring \<Rightarrow> date_input \<Rightarrow>
   jsstring option \<Rightarrow> jsstring \<Rightarrow> js_error + equipment" where
  "newEquipment rt t d l lab dt ph s =
     (let errs = validateText ''title'' 100 (trim t)
               @ validateText ''description'' 500 (trim d)
               @ validateText ''location'' 100 (trim l)
               @ validateText ''laboratory'' 100 (trim lab)
               @ validateStatus s
      in case schemaCastDate rt dt of
           None \<Rightarrow> Inl (ValidationError (errs @ [CastFailed ''datetime'']))
         | Some when \<Rightarrow>
             if errs \<noteq> [] then Inl (ValidationError errs)
             else Inr \<lparr> oid = newObjectId rt, title = trim t, description = trim d,
                        location = trim l, laboratory = trim lab, photo = ph,
                        datetime = when, status = s,
                        createdAt = now rt, updatedAt = now rt \<rparr>)"

text \<open>
  The collection, in insertion order. The insert fails when the database is unreachable
  or when the unique index on \<open>_id\<close> is violated.
\<close>

definition insertOne :: "runtime \<Rightarrow> equipment list \<Rightarrow> equipment \<Rightarrow> js_error + equipment list" where
  "insertOne rt coll doc =
     (if \<not> connected rt then Inl MongoError
      else if oid doc \<in> set (map oid coll) then Inl MongoError
      else Inr (coll @ [doc]))"

text \<open>
  \<open>equipment.save()\<close> on what \<open>new Equipment\<close> built: the validation error is thrown
  before anything is written, else the document is inserted. The result is the
  document as written, with the collection.
\<close>

definition save ::
  "runtime \<Rightarrow> equipment list \<Rightarrow> js_error + equipment \<Rightarrow>
   js_error + (equipment \<times> equipment list)" where
  "save rt coll built =
     (case built of
        Inl err \<Rightarrow> Inl err
      | Inr doc \<Rightarrow>
          (case insertOne rt coll doc of
             Inl err \<Rightarrow> Inl err
           | Inr coll' \<Rightarrow> Inr (doc, coll')))"

fun findById :: "objectid \<Rightarrow> equipment list \<Rightarrow> equipment option" where
  "findById i [] = None"
| "findById i (e # es) = (if oid e = i then Some e else findById i es)"

fun replaceById :: "objectid \<Rightarrow> equipment \<Rightarrow> equipment list \<Rightarrow> equipment list" where
  "replaceById i e' [] = []"
| "replaceById i e' (e # es) = (if oid e = i then e' # es else e # replaceById i e' es)"

fun removeById :: "objectid \<Rightarrow> equipment list \<Rightarrow> equipment list" where
  "removeById i [] = []"
| "removeById i (e # es) = (if oid e = i then es else e # removeById i es)"

text \<open>\<open>Equipment.find().sort({ createdAt: -1 })\<close>.\<close>

definition findSorted :: "runtime \<Rightarrow> equipment list \<Rightarrow> js_error + equipment list" where
  "findSorted rt coll =
     (if \<not> connected rt then Inl MongoError
      else Inr (sort_key (\<lambda>e. - createdAt e) coll))"

text \<open>
  \<open>Equipment.findByIdAndUpdate(id, { status }, { new: true, runValidators: true })\<close>:
  the id is cast, the update validators check the new status against the enum, the
  first document with that id gets the new status and a new \<open>updatedAt\<close>, and the
  document as updated is returned (\<open>null\<close> when there is none).
\<close>

definition findByIdAndUpdate ::
  "runtime \<Rightarrow> equipment list \<Rightarrow> jsstring \<Rightarrow> jsstring \<Rightarrow>
   js_error + (equipment option \<times> equipment list)" where
  "findByIdAndUpdate rt coll ident s =
     (case castObjectId rt ident of
        None \<Rightarrow> Inl CastError
      | Some i \<Rightarrow>
          if validateStatus s \<noteq> [] then Inl (ValidationError (validateStatus s))
          else if \<not> connected rt then Inl MongoError
          else (case findById i coll of
                  None \<Rightarrow> Inr (None, coll)
                | Some e \<Rightarrow>
                    let e' = e\<lparr>status := s, updatedAt := now rt\<rparr>
                    in Inr (Some e', replaceById i e' coll)))"

definition findByIdAndDelete ::
  "runtime \<Rightarrow> equipment list \<Rightarrow> jsstring \<Rightarrow> js_error + (equipment option \<times> equipment list)" where
  "findByIdAndDelete rt coll ident =
     (case castObjectId rt ident of
        None \<Rightarrow> Inl CastError
      | Some i \<Rightarrow>
          if \<not> connected rt then Inl MongoError
          else (case findById i coll of
                  None \<Rightarrow> Inr (None, coll)
                | Some e \<Rightarrow> Inr (Some e, removeById i coll)))"

section \<open>The server (server.js)\<close>

text \<open>The server's state: the collection and the names of the files under uploads/.\<close>

record server_state =
  equipments :: "equipment list"
  uploads :: "jsstring list"

text \<open>The error texts of the JSON bodies, and the bodies.\<close>

datatype error_text =
    ErroListar
  | CamposObrigatorios
  | DadosInvalidos
  | ErroInternoSalvar
  | StatusInvalido
  | NaoEncontrado
  | ErroAtualizar
  | ErroExcluir
  | ArquivoMuitoGrande
  | ErroInternoServidor

datatype body =
    Failure error_text
  | FailureDetails error_text "validator_error list"
  | Listing "equipment list"
  | Reported equipment
  | Updated equipment
  | Excluded equipment

type_synonym response = "nat \<times> body"

subsection \<open>The upload middleware\<close>

record upload_file =
  originalname :: jsstring
  mimetype :: jsstring
  bytes :: nat

definition filename :: "runtime \<Rightarrow> upload_file \<Rightarrow> jsstring" where
  "filename rt f = numberToString (now rt) @ js ''-'' @ originalname f"

definition fileFilter :: "upload_file \<Rightarrow> js_error + unit" where
  "fileFilter f = (if startsWith (mimetype f) (js ''image/'') then Inr () else Inl PlainError)"

definition fileSizeLimit :: nat where
  "fileSizeLimit = 5 * 1024 * 1024"

text \<open>
  \<open>upload.single('photo')\<close> on a request with at most one file part: the filter runs
  on the part's header, the size limit while the part is stored; a part over the limit
  is an error and its file is removed again. The result is \<open>req.file.filename\<close>.
\<close>

definition uploadSingle ::
  "runtime \<Rightarrow> server_state \<Rightarrow> upload_file option \<Rightarrow> js_error + (jsstring option \<times> server_state)" where
  "uploadSingle rt st part =
     (case part of
        None \<Rightarrow> Inr (None, st)
      | Some f \<Rightarrow>
          (case fileFilter f of
             Inl err \<Rightarrow> Inl err
           | Inr _ \<Rightarrow>
               if fileSizeLimit < bytes f then Inl (MulterError LIMIT_FILE_SIZE)
               else Inr (Some (filename rt f), st\<lparr>uploads := filename rt f # uploads st\<rparr>)))"

text \<open>The error-handling middleware (\<open>app.use((error, req, res, next) => ...)\<close>).\<close>

definition errorMiddleware :: "js_error \<Rightarrow> response" where
  "errorMiddleware err =
     (case err of
        MulterError LIMIT_FILE_SIZE \<Rightarrow> (400, Failure ArquivoMuitoGrande)
      | _ \<Rightarrow> (500, Failure ErroInternoServidor))"

subsection \<open>GET /api/equipments\<close>

definition listEquipments :: "runtime \<Rightarrow> server_state \<Rightarrow> response \<times> server_state" where
  "listEquipments rt st =
     (case findSorted rt (equipments st) of
        Inr found \<Rightarrow> ((200, Listing found), st)
      | Inl _ \<Rightarrow> ((500, Failure ErroListar), st))"

subsection \<open>POST /api/equipments\<close>

text \<open>
  \<open>req.body\<close> of the multipart form: each text part is a string, a part the form does
  not have is \<open>undefined\<close> (\<open>None\<close>). The handler reads five of the fields; \<open>status\<close>
  stands for what a client may send besides. The form has at most one file part.
\<close>

record create_body =
  body_title :: "jsstring option"
  body_description :: "jsstring option"
  body_location :: "jsstring option"
  body_laboratory :: "jsstring option"
  body_datetime :: "jsstring option"
  body_status :: "jsstring option"

record create_request =
  req_body :: create_body
  req_file :: "upload_file option"

text \<open>
  The route handler, given \<open>req.body\<close> and \<open>req.file.filename\<close> (if any). The first
  test is \<open>!title || !description || !location || !laboratory\<close>; \<open>datetime || new Date()\<close>
  is the string of the request unless it is absent or empty.
\<close>

definition createHandler ::
  "runtime \<Rightarrow> server_state \<Rightarrow> create_body \<Rightarrow> jsstring option \<Rightarrow> response \<times> server_state" where
  "createHandler rt st b stored =
     (case (body_title b, body_description b, body_location b, body_laboratory b) of
        (Some t, Some d, Some l, Some lab) \<Rightarrow>
          if t = [] \<or> d = [] \<or> l = [] \<or> lab = []
          then ((400, Failure CamposObrigatorios), st)
          else
            (let dt = (case body_datetime b of
                         None \<Rightarrow> DateObject (now rt)
                       | Some v \<Rightarrow> if v = [] then DateObject (now rt) else DateString v)
             in case save rt (equipments st)
                       (newEquipment rt (trim t) (trim d) (trim l) (trim lab) dt stored
                          (js ''pendente'')) of
                  Inr (doc, coll) \<Rightarrow> ((201, Reported doc), st\<lparr>equipments := coll\<rparr>)
                | Inl (ValidationError errs) \<Rightarrow>
                    ((400, FailureDetails DadosInvalidos errs), st)
                | Inl _ \<Rightarrow> ((500, Failure ErroInternoSalvar), st))
      | _ \<Rightarrow> ((400, Failure CamposObrigatorios), st))"

definition postEquipments ::
  "runtime \<Rightarrow> server_state \<Rightarrow> create_request \<Rightarrow> response \<times> server_state" where
  "postEquipments rt st rq =
     (case uploadSingle rt st (req_file rq) of
        Inl err \<Rightarrow> (errorMiddleware err, st)
      | Inr (stored, st') \<Rightarrow> createHandler rt st' (req_body rq) stored)"

subsection \<open>PUT /api/equipments/:id\<close>

text \<open>
  The route parameter \<open>id\<close> and the \<open>status\<close> of the JSON body when it is a string;
  \<open>None\<close> stands for a body without \<open>status\<close> and for a \<open>status\<close> that is no string, for
  both of which \<open>!status || !['pendente', 'em_manutencao', 'concluido'].includes(status)\<close>
  holds.
\<close>

definition putEquipment ::
  "runtime \<Rightarrow> server_state \<Rightarrow> jsstring \<Rightarrow> jsstring option \<Rightarrow> response \<times> server_state" where
  "putEquipment rt st ident body_st =
     (case body_st of
        None \<Rightarrow> ((400, Failure StatusInvalido), st)
      | Some s \<Rightarrow>
          if s = [] \<or> s \<notin> set [js ''pendente'', js ''em_manutencao'', js ''concluido'']
          then ((400, Failure StatusInvalido), st)
          else (case findByIdAndUpdate rt (equipments st) ident s of
                  Inl _ \<Rightarrow> ((500, Failure ErroAtualizar), st)
                | Inr (None, _) \<Rightarrow> ((404, Failure NaoEncontrado), st)
                | Inr (Some e, coll) \<Rightarrow> ((200, Updated e), st\<lparr>equipments := coll\<rparr>)))"

subsection \<open>DELETE /api/equipments/:id\<close>

definition deleteEquipment ::
  "runtime \<Rightarrow> server_state \<Rightarrow> jsstring \<Rightarrow> response \<times> server_state" where
  "deleteEquipment rt st ident =
     (case findByIdAndDelete rt (equipments st) ident of
        Inl _ \<Rightarrow> ((500, Failure ErroExcluir), st)
      | Inr (None, _) \<Rightarrow> ((404, Failure NaoEncontrado), st)
      | Inr (Some e, coll) \<Rightarrow> ((200, Excluded e), st\<lparr>equipments := coll\<rparr>))"

subsection \<open>Runs of the server\<close>

text \<open>The four routes that read or write the collection, and the server on one request.\<close>

datatype request =
    GET_equipments
  | POST_equipments create_request
  | PUT_equipment jsstring "jsstring option"
  | DELETE_equipment jsstring

fun app :: "runtime \<Rightarrow> server_state \<Rightarrow> request \<Rightarrow> response \<times> server_state" where
  "app rt st GET_equipments = listEquipments rt st"
| "app rt st (POST_equipments rq) = postEquipments rt st rq"
| "app rt st (PUT_equipment ident body_st) = putEquipment rt st ident body_st"
| "app rt st (DELETE_equipment ident) = deleteEquipment rt st ident"

text \<open>
  The state after a sequence of requests, each with the runtime it meets, served one
  at a time; the server starts on an empty collection and an empty uploads directory.
\<close>

fun serve :: "server_state \<Rightarrow> (runtime \<times> request) list \<Rightarrow> server_state" where
  "serve st [] = st"
| "serve st ((rt, rq) # rest) = serve (snd (app rt st rq)) rest"

definition emptyState :: server_state where
  "emptyState = \<lparr> equipments = [], uploads = [] \<rparr>"

section \<open>Predicates of the properties\<close>

text \<open>A request body that lacks one of the four required fields, or has it empty.\<close>

definition missingField :: "create_body \<Rightarrow> bool" where
  "missingField b \<longleftrightarrow>
     falsy (body_title b) \<or> falsy (body_description b) \<or>
     falsy (body_location b) \<or> falsy (body_laboratory b)"

text \<open>A text that is present, not blank, and within \<open>n\<close> code units once trimmed.\<close>

definition validField :: "nat \<Rightarrow> jsstring option \<Rightarrow> bool" where
  "validField n v \<longleftrightarrow> (case v of None \<Rightarrow> False | Some s \<Rightarrow> trim s \<noteq> [] \<and> length (trim s) \<le> n)"

definition validText :: "create_body \<Rightarrow> bool" where
  "validText b \<longleftrightarrow>
     validField 100 (body_title b) \<and> validField 500 (body_description b) \<and>
     validField 100 (body_location b) \<and> validField 100 (body_laboratory b)"

text \<open>A text that is not empty and neither starts nor ends with white space.\<close>

definition cleanText :: "jsstring \<Rightarrow> bool" where
  "cleanText s \<longleftrightarrow> s \<noteq> [] \<and> \<not> isWhiteSpace (hd s) \<and> \<not> isWhiteSpace (last s)"

definition cleanFields :: "equipment \<Rightarrow> bool" where
  "cleanFields e \<longleftrightarrow>
     cleanText (title e) \<and> cleanText (description e) \<and>
     cleanText (location e) \<and> cleanText (laboratory e)"

text \<open>A field that is present and not empty, but made of white space only.\<close>

definition blank :: "jsstring option \<Rightarrow> bool" where
  "blank v \<longleftrightarrow> (case v of None \<Rightarrow> False | Some s \<Rightarrow> s \<noteq> [] \<and> list_all isWhiteSpace s)"

definition blankField :: "create_body \<Rightarrow> bool" where
  "blankField b \<longleftrightarrow>
     blank (body_title b) \<or> blank (body_description b) \<or>
     blank (body_location b) \<or> blank (body_laboratory b)"

definition newestFirst :: "equipment list \<Rightarrow> bool" where
  "newestFirst es \<longleftrightarrow> sorted_wrt (\<lambda>a b. createdAt b \<le> createdAt a) es"

text \<open>
  The date a valid create request stores: the clock's when the request has no
  \<open>datetime\<close> or an empty one, else what the Date cast makes of the string, if anything.
\<close>

definition storedDate :: "runtime \<Rightarrow> create_body \<Rightarrow> int option" where
  "storedDate rt b =
     (case body_datetime b of
        None \<Rightarrow> Some (now rt)
      | Some v \<Rightarrow> if v = [] then Some (now rt) else castDate rt v)"

section \<open>A sample run\<close>

text \<open>
  The ObjectId cast of a string of 24 hexadecimal digits, the form in which the client
  sends an \<open>_id\<close> back.
\<close>

definition hexDigit :: "jschar \<Rightarrow> nat option" where
  "hexDigit c =
     (if 0x30 \<le> c \<and> c \<le> 0x39 then Some (unat c - 0x30)
      else if 0x61 \<le> c \<and> c \<le> 0x66 then Some (unat c - 0x57)
      else if 0x41 \<le> c \<and> c \<le> 0x46 then Some (unat c - 0x37)
      else None)"

fun hexValue :: "nat \<Rightarrow> jsstring \<Rightarrow> nat option" where
  "hexValue acc [] = Some acc"
| "hexValue acc (c # cs) =
     (case hexDigit c of None \<Rightarrow> None | Some d \<Rightarrow> hexValue (16 * acc + d) cs)"

definition hexObjectId :: "jsstring \<Rightarrow> objectid option" where
  "hexObjectId s = (if length s = 24 then map_option of_nat (hexValue 0 s) else None)"

text \<open>
  A runtime for the examples: midnight of 1 January 2024 on the clock, the database
  connected, ids cast from their hexadecimal form, and the Date cast on the strings of
  the examples: the ISO form of that instant, as the client's \<open>toISOString()\<close> writes
  it, is the instant; \<open>new Date('abc')\<close> is an Invalid Date, so the cast of \<open>abc\<close> (the
  only other string the examples cast) fails.
\<close>

definition sampleRuntime :: runtime where
  "sampleRuntime =
     \<lparr> now = 1704067200000, connected = True, newObjectId = 0x507f1f77bcf86cd799439011,
       castDate = (\<lambda>s. if s = js ''2024-01-01T00:00:00.000Z'' then Some 1704067200000
                        else None),
       castObjectId = hexObjectId \<rparr>"

definition sampleId :: jsstring where
  "sampleId = js ''507f1f77bcf86cd799439011''"

text \<open>Scenario 1 of the specification, with a status the client tries to set.\<close>

definition sampleBody :: create_body where
  "sampleBody =
     \<lparr> body_title = Some (js ''Projetor sem ligar''), body_description = Some (js ''nao liga''),
       body_location = Some (js ''Mesa 5''), body_laboratory = Some (js ''Lab 1''),
       body_datetime = None, body_status = Some (js ''concluido'') \<rparr>"

definition sampleEquipment :: equipment where
  "sampleEquipment =
     \<lparr> oid = 0x507f1f77bcf86cd799439011, title = js ''Projetor sem ligar'',
       description = js ''nao liga'', location = js ''Mesa 5'', laboratory = js ''Lab 1'',
       photo = None, datetime = 1704067200000, status = js ''pendente'',
       createdAt = 1704067200000, updatedAt = 1704067200000 \<rparr>"

definition sampleState :: server_state where
  "sampleState = \<lparr> equipments = [sampleEquipment], uploads = [] \<rparr>"

text \<open>A second report, with a photo, white space around its texts and a date.\<close>

definition secondRuntime :: runtime where
  "secondRuntime = sampleRuntime\<lparr>now := 1704067260000, newObjectId := 0x507f1f77bcf86cd799439012\<rparr>"

definition secondBody :: create_body where
  "secondBody =
     \<lparr> body_title = Some (js ''  Monitor piscando ''), body_description = Some (js '' tela pisca''),
       body_location = Some (js ''Mesa 2 ''), body_laboratory = Some (js ''Lab 3''),
       body_datetime = Some (js ''2024-01-01T00:00:00.000Z''), body_status = None \<rparr>"

definition samplePhoto :: upload_file where
  "samplePhoto = \<lparr> originalname = js ''tela.png'', mimetype = js ''image/png'', bytes = 204800 \<rparr>"

definition secondEquipment :: equipment where
  "secondEquipment =
     \<lparr> oid = 0x507f1f77bcf86cd799439012, title = js ''Monitor piscando'',
       description = js ''tela pisca'', location = js ''Mesa 2'', laboratory = js ''Lab 3'',
       photo = Some (js ''1704067260000-tela.png''), datetime = 1704067200000,
       status = js ''pendente'', createdAt = 1704067260000, updatedAt = 1704067260000 \<rparr>"

definition secondState :: server_state where
  "secondState =
     \<lparr> equipments = [sampleEquipment, secondEquipment],
       uploads = [js ''1704067260000-tela.png''] \<rparr>"

text \<open>An id that no record has, a file that is no image, and an image over the limit.\<close>

definition absentId :: jsstring where
  "absentId = js ''507f1f77bcf86cd799439099''"

definition textFile :: upload_file where
  "textFile = \<lparr> originalname = js ''notas.txt'', mimetype = js ''text/plain'', bytes = 1024 \<rparr>"

definition largePhoto :: upload_file where
  "largePhoto = \<lparr> originalname = js ''tela.png'', mimetype = js ''image/png'', bytes = 5242881 \<rparr>"

section \<open>Trimming\<close>

lemma dropWhile_suffix_last: "dropWhile P xs \<noteq> [] \<Longrightarrow> last (dropWhile P xs) = last xs"
  by (induction xs) (auto split: if_splits)

lemma trim_Nil_or_clean: "trim s = [] \<or> cleanText (trim s)"
proof (cases "trim s = []")
  case True
  then show ?thesis by simp
next
  case False
  define u where "u = dropWhile isWhiteSpace s"
  define v where "v = dropWhile isWhiteSpace (rev u)"
  have tv: "trim s = rev v" by (simp add: trim_def u_def v_def)
  with False have v: "v \<noteq> []" by simp
  then have ru: "rev u \<noteq> []" by (auto simp: v_def)
  then have u: "u \<noteq> []" by simp
  have "\<not> isWhiteSpace (hd v)" using v unfolding v_def by (rule hd_dropWhile)
  then have l: "\<not> isWhiteSpace (last (trim s))" using v by (simp add: tv last_rev)
  have "last v = last (rev u)" using v unfolding v_def by (rule dropWhile_suffix_last)
  then have "hd (trim s) = hd u" using v u by (simp add: tv hd_rev last_rev)
  moreover have "\<not> isWhiteSpace (hd u)" using u unfolding u_def by (rule hd_dropWhile)
  ultimately show ?thesis using False l by (simp add: cleanText_def)
qed

lemma trim_clean: "cleanText s \<Longrightarrow> trim s = s"
proof -
  assume c: "cleanText s"
  then obtain x xs where s: "s = x # xs" and x: "\<not> isWhiteSpace x"
    by (cases s) (auto simp: cleanText_def)
  then have d: "dropWhile isWhiteSpace s = s" by simp
  have "rev s \<noteq> []" "\<not> isWhiteSpace (hd (rev s))"
    using c by (auto simp: cleanText_def hd_rev)
  then have "dropWhile isWhiteSpace (rev s) = rev s"
    by (cases "rev s") auto
  with d show ?thesis by (simp add: trim_def)
qed

lemma trim_Nil: "trim [] = []"
  by (simp add: trim_def)

lemma trim_idem: "trim (trim s) = trim s"
proof (cases "trim s = []")
  case True
  then show ?thesis by (simp add: trim_Nil)
next
  case False
  with trim_Nil_or_clean [of s] show ?thesis by (simp add: trim_clean)
qed

lemma trim_blank: "list_all isWhiteSpace s \<Longrightarrow> trim s = []"
proof -
  assume "list_all isWhiteSpace s"
  then have h: "dropWhile isWhiteSpace s = []" by (simp add: list_all_iff)
  show ?thesis unfolding trim_def h by simp
qed

section \<open>The create handler\<close>

lemma validateText_Nil: "validateText p n v = [] \<longleftrightarrow> v \<noteq> [] \<and> length v \<le> n"
  by (simp add: validateText_def)


lemma newEquipment_Inr:
  "newEquipment rt t d l lab dt ph s = Inr e \<Longrightarrow>
     (\<exists>w. schemaCastDate rt dt = Some w \<and>
        e = \<lparr> oid = newObjectId rt, title = trim t, description = trim d,
              location = trim l, laboratory = trim lab, photo = ph,
              datetime = w, status = s, createdAt = now rt, updatedAt = now rt \<rparr>) \<and>
     trim t \<noteq> [] \<and> trim d \<noteq> [] \<and> trim l \<noteq> [] \<and> trim lab \<noteq> [] \<and>
     length (trim t) \<le> 100 \<and> length (trim d) \<le> 500 \<and>
     length (trim l) \<le> 100 \<and> length (trim lab) \<le> 100 \<and> s \<in> set statusEnum"
  by (auto simp: newEquipment_def Let_def validateText_Nil validateStatus_def
           split: option.splits if_splits)

lemma newEquipment_ok:
  "schemaCastDate rt dt = Some w \<Longrightarrow>
   trim t \<noteq> [] \<Longrightarrow> trim d \<noteq> [] \<Longrightarrow> trim l \<noteq> [] \<Longrightarrow> trim lab \<noteq> [] \<Longrightarrow>
   length (trim t) \<le> 100 \<Longrightarrow> length (trim d) \<le> 500 \<Longrightarrow>
   length (trim l) \<le> 100 \<Longrightarrow> length (trim lab) \<le> 100 \<Longrightarrow> s \<in> set statusEnum \<Longrightarrow>
   newEquipment rt t d l lab dt ph s =
     Inr \<lparr> oid = newObjectId rt, title = trim t, description = trim d,
           location = trim l, laboratory = trim lab, photo = ph,
           datetime = w, status = s, createdAt = now rt, updatedAt = now rt \<rparr>"
  by (simp add: newEquipment_def Let_def validateText_def validateStatus_def)

lemma pendente_enum: "js ''pendente'' \<in> set statusEnum"
  by (simp add: statusEnum_def)

lemma createHandler_Reported:
  assumes "createHandler rt st b stored = ((c, Reported e), st')"
  shows "c = 201 \<and> status e = js ''pendente'' \<and> oid e = newObjectId rt \<and>
         Some (title e) = map_option trim (body_title b) \<and>
         Some (description e) = map_option trim (body_description b) \<and>
         Some (location e) = map_option trim (body_location b) \<and>
         Some (laboratory e) = map_option trim (body_laboratory b) \<and>
         title e \<noteq> [] \<and> description e \<noteq> [] \<and> location e \<noteq> [] \<and> laboratory e \<noteq> [] \<and>
         photo e = stored \<and> createdAt e = now rt \<and>
         connected rt \<and> oid e \<notin> set (map oid (equipments st)) \<and>
         st' = st\<lparr>equipments := equipments st @ [e]\<rparr>"
  using assms
  by (auto simp: createHandler_def Let_def save_def insertOne_def trim_idem
           split: option.splits if_splits sum.splits js_error.splits dest!: newEquipment_Inr)

lemma uploadSingle_equipments:
  "uploadSingle rt st part = Inr (stored, st1) \<Longrightarrow> equipments st1 = equipments st"
  by (auto simp: uploadSingle_def split: option.splits sum.splits if_splits)

lemma errorMiddleware_Failure: "\<exists>t. snd (errorMiddleware err) = Failure t"
  by (simp add: errorMiddleware_def split: js_error.splits multer_code.splits)

lemma postEquipments_Reported:
  assumes "postEquipments rt st rq = ((c, Reported e), st')"
  shows "\<exists>stored st1. uploadSingle rt st (req_file rq) = Inr (stored, st1) \<and>
           createHandler rt st1 (req_body rq) stored = ((c, Reported e), st')"
proof (cases "uploadSingle rt st (req_file rq)")
  case (Inl err)
  with assms have "errorMiddleware err = (c, Reported e)"
    by (simp add: postEquipments_def)
  with errorMiddleware_Failure [of err] show ?thesis by simp
next
  case (Inr r)
  with assms show ?thesis by (cases r) (simp add: postEquipments_def)
qed

lemma findById_append_new:
  "i \<notin> oid ` set coll \<Longrightarrow> oid e = i \<Longrightarrow> findById i (coll @ [e]) = Some e"
  by (induction coll) auto

lemma createHandler_ignores_status:
  "createHandler rt st (b\<lparr>body_status := v\<rparr>) stored = createHandler rt st b stored"
  by (simp add: createHandler_def split: option.splits)

lemma postEquipments_ignores_status:
  "postEquipments rt st (rq\<lparr>req_body := (req_body rq)\<lparr>body_status := v\<rparr>\<rparr>) = postEquipments rt st rq"
  by (simp add: postEquipments_def createHandler_ignores_status split: sum.splits prod.splits)

lemmas sample_defs = sampleRuntime_def sampleId_def emptyState_def sampleBody_def
  sampleEquipment_def sampleState_def secondRuntime_def secondBody_def samplePhoto_def
  secondEquipment_def secondState_def

lemmas eval_defs = postEquipments_def uploadSingle_def createHandler_def newEquipment_def
  save_def insertOne_def schemaCastDate_def validateText_def validateStatus_def statusEnum_def
  trim_def isWhiteSpace_def js_def filename_def fileFilter_def startsWith_def
  fileSizeLimit_def numberToString_def digits.simps

lemma sample_post:
  "postEquipments sampleRuntime emptyState \<lparr> req_body = sampleBody, req_file = None \<rparr>
     = ((201, Reported sampleEquipment), sampleState)"
  by (simp add: eval_defs sample_defs)

lemma sample_served:
  "serve emptyState
     [(sampleRuntime, POST_equipments \<lparr> req_body = sampleBody, req_file = None \<rparr>)]
     = sampleState"
  by (simp add: sample_post)

lemma second_post:
  "postEquipments secondRuntime sampleState
       \<lparr> req_body = secondBody, req_file = Some samplePhoto \<rparr>
     = ((201, Reported secondEquipment), secondState)"
  by (simp add: eval_defs sample_defs)

section \<open>Creation\<close>

text \<open>
  Claim C1. Whenever a create request is answered with a record, that record has the
  status \<open>pendente\<close> and is the one the collection holds under its id; the answer and
  the resulting state are the same for every value \<open>v\<close> of a \<open>status\<close> field in the
  request body, present or absent.
\<close>

theorem created_status_pending:
  assumes "postEquipments rt st rq = ((code, Reported e), st')"
  shows "status e = js ''pendente'' \<and>
         findById (oid e) (equipments st') = Some e \<and>
         postEquipments rt st (rq\<lparr>req_body := (req_body rq)\<lparr>body_status := v\<rparr>\<rparr>)
           = ((code, Reported e), st')"
proof -
  from postEquipments_Reported [OF assms] obtain stored st1
    where h: "createHandler rt st1 (req_body rq) stored = ((code, Reported e), st')"
    by blast
  note r = createHandler_Reported [OF h]
  from r have a: "oid e \<notin> oid ` set (equipments st1)"
    and b: "equipments st' = equipments st1 @ [e]" by auto
  have "findById (oid e) (equipments st') = Some e"
    unfolding b using a by (rule findById_append_new) simp
  with r assms show ?thesis
    by (simp add: postEquipments_ignores_status)
qed

theorem created_status_pending_witness:
  "postEquipments sampleRuntime emptyState \<lparr> req_body = sampleBody, req_file = None \<rparr>
     = ((201, Reported sampleEquipment), sampleState) \<and>
   body_status sampleBody = Some (js ''concluido'') \<and>
   status sampleEquipment = js ''pendente'' \<and>
   findById (oid sampleEquipment) (equipments sampleState) = Some sampleEquipment"
proof -
  have p: "postEquipments sampleRuntime emptyState \<lparr> req_body = sampleBody, req_file = None \<rparr>
     = ((201, Reported sampleEquipment), sampleState)"
    by (simp add: eval_defs sample_defs)
  have "body_status sampleBody = Some (js ''concluido'')" by (simp add: sampleBody_def)
  with p created_status_pending [OF p] show ?thesis by simp
qed

lemma postEquipments_equipments:
  "equipments (snd (postEquipments rt st rq)) = equipments st \<or>
   (\<exists>c e. fst (postEquipments rt st rq) = (c, Reported e))"
proof (cases "uploadSingle rt st (req_file rq)")
  case (Inl err)
  then show ?thesis by (simp add: postEquipments_def)
next
  case (Inr r)
  obtain stored st1 where r: "r = (stored, st1)" by (cases r)
  with Inr have e: "equipments st1 = equipments st" by (simp add: uploadSingle_equipments)
  have "equipments (snd (createHandler rt st1 (req_body rq) stored)) = equipments st1 \<or>
        (\<exists>c e. fst (createHandler rt st1 (req_body rq) stored) = (c, Reported e))"
    by (auto simp: createHandler_def Let_def split: option.splits sum.splits js_error.splits)
  with Inr r e show ?thesis by (simp add: postEquipments_def)
qed

lemma postEquipments_no_file:
  "req_file rq = None \<Longrightarrow> postEquipments rt st rq = createHandler rt st (req_body rq) None"
  by (simp add: postEquipments_def uploadSingle_def)

lemma errorMiddleware_not_Reported: "errorMiddleware err \<noteq> (c, Reported e)"
  by (simp add: errorMiddleware_def split: js_error.splits multer_code.splits)

lemma errorMiddleware_not_201: "fst (errorMiddleware err) \<noteq> 201"
  by (simp add: errorMiddleware_def split: js_error.splits multer_code.splits)

lemma post_not_image:
  "\<not> startsWith (mimetype f) (js ''image/'') \<Longrightarrow> req_file rq = Some f \<Longrightarrow>
   postEquipments rt st rq = ((500, Failure ErroInternoServidor), st)"
  by (simp add: postEquipments_def uploadSingle_def fileFilter_def errorMiddleware_def)

lemma post_too_large:
  "startsWith (mimetype f) (js ''image/'') \<Longrightarrow> fileSizeLimit < bytes f \<Longrightarrow> req_file rq = Some f \<Longrightarrow>
   postEquipments rt st rq = ((400, Failure ArquivoMuitoGrande), st)"
  by (simp add: postEquipments_def uploadSingle_def fileFilter_def errorMiddleware_def)





lemma newEquipment_blank:
  assumes "trim t = [] \<or> trim d = [] \<or> trim l = [] \<or> trim lab = []"
  shows "\<exists>errs p. newEquipment rt t d l lab dt ph s = Inl (ValidationError errs) \<and>
           Required p \<in> set errs"
proof -
  define errs where "errs = validateText ''title'' 100 (trim t)
               @ validateText ''description'' 500 (trim d)
               @ validateText ''location'' 100 (trim l)
               @ validateText ''laboratory'' 100 (trim lab)
               @ validateStatus s"
  from assms have r: "\<exists>p. Required p \<in> set errs"
    by (auto simp: errs_def validateText_def)
  then have ne: "errs \<noteq> []" by auto
  have "newEquipment rt t d l lab dt ph s = Inl (ValidationError errs) \<or>
        newEquipment rt t d l lab dt ph s = Inl (ValidationError (errs @ [CastFailed ''datetime'']))"
    using ne by (simp add: newEquipment_def errs_def [symmetric] split: option.splits)
  with r show ?thesis by auto
qed

lemma blank_trim: "blank v \<Longrightarrow> \<exists>s. v = Some s \<and> s \<noteq> [] \<and> trim s = []"
  by (auto simp: blank_def trim_blank split: option.splits)

lemma present_fields:
  "\<not> missingField b \<Longrightarrow>
   \<exists>t d l lab. body_title b = Some t \<and> body_description b = Some d \<and>
     body_location b = Some l \<and> body_laboratory b = Some lab \<and>
     t \<noteq> [] \<and> d \<noteq> [] \<and> l \<noteq> [] \<and> lab \<noteq> []"
  by (auto simp: missingField_def falsy_def split: option.splits)

lemma createHandler_blank:
  assumes "blankField b" "\<not> missingField b"
  shows "\<exists>errs p. createHandler rt st b stored = ((400, FailureDetails DadosInvalidos errs), st) \<and>
           Required p \<in> set errs"
proof -
  from present_fields [OF assms(2)] obtain t d l lab where
    f: "body_title b = Some t" "body_description b = Some d"
       "body_location b = Some l" "body_laboratory b = Some lab"
       "t \<noteq> []" "d \<noteq> []" "l \<noteq> []" "lab \<noteq> []"
    by blast
  from assms(1) f have "trim t = [] \<or> trim d = [] \<or> trim l = [] \<or> trim lab = []"
    by (auto simp: blankField_def dest!: blank_trim)
  then have "trim (trim t) = [] \<or> trim (trim d) = [] \<or> trim (trim l) = [] \<or> trim (trim lab) = []"
    by (simp add: trim_idem)
  from newEquipment_blank [OF this]
  have "\<And>dt. \<exists>errs p. newEquipment rt (trim t) (trim d) (trim l) (trim lab) dt stored (js ''pendente'')
           = Inl (ValidationError errs) \<and> Required p \<in> set errs" .
  then obtain errs p where
    "newEquipment rt (trim t) (trim d) (trim l) (trim lab)
       (case body_datetime b of None \<Rightarrow> DateObject (now rt)
        | Some v \<Rightarrow> if v = [] then DateObject (now rt) else DateString v) stored (js ''pendente'')
       = Inl (ValidationError errs)" "Required p \<in> set errs"
    by blast
  with f show ?thesis by (auto simp: createHandler_def save_def)
qed

text \<open>
  Claim C10. When all four required fields of the body are present and not empty, and one
  of them is made of white space only, the route handler gets past the presence test and
  answers 400 with the validation failure of the schema, which names a path that is
  required, and the state is as before; so a request without a photo is answered that
  way. And whatever the upload middleware did with the request before, the request is
  not answered 201 and the collection is the same afterwards.
\<close>

theorem blank_field_rejected:
  assumes "blankField (req_body rq)" "\<not> missingField (req_body rq)"
  shows "(\<exists>errs p. createHandler rt st (req_body rq) stored
             = ((400, FailureDetails DadosInvalidos errs), st) \<and> Required p \<in> set errs) \<and>
         (req_file rq = None \<longrightarrow>
            (\<exists>errs p. postEquipments rt st rq
               = ((400, FailureDetails DadosInvalidos errs), st) \<and> Required p \<in> set errs)) \<and>
         equipments (snd (postEquipments rt st rq)) = equipments st \<and>
         fst (fst (postEquipments rt st rq)) \<noteq> 201"
proof -
  have h: "\<And>s f. \<exists>errs. createHandler rt s (req_body rq) f
             = ((400, FailureDetails DadosInvalidos errs), s)"
    using createHandler_blank [OF assms] by blast
  have n: "\<not> (\<exists>c e. fst (postEquipments rt st rq) = (c, Reported e))"
  proof (cases "uploadSingle rt st (req_file rq)")
    case (Inl err)
    then show ?thesis by (simp add: postEquipments_def errorMiddleware_not_Reported)
  next
    case (Inr r)
    obtain f s where "r = (f, s)" by (cases r)
    with Inr h [of s f] show ?thesis by (auto simp: postEquipments_def)
  qed
  have c: "fst (fst (postEquipments rt st rq)) \<noteq> 201"
  proof (cases "uploadSingle rt st (req_file rq)")
    case (Inl err)
    then show ?thesis by (simp add: postEquipments_def errorMiddleware_not_201)
  next
    case (Inr r)
    obtain f s where "r = (f, s)" by (cases r)
    with Inr h [of s f] show ?thesis by (auto simp: postEquipments_def)
  qed
  from n postEquipments_equipments [of rt st rq]
  have "equipments (snd (postEquipments rt st rq)) = equipments st" by blast
  with createHandler_blank [OF assms] c show ?thesis by (simp add: postEquipments_no_file)
qed

theorem blank_field_rejected_witness:
  "blankField (sampleBody\<lparr>body_title := Some (js ''   '')\<rparr>) \<and>
   \<not> missingField (sampleBody\<lparr>body_title := Some (js ''   '')\<rparr>) \<and>
   postEquipments sampleRuntime sampleState
       \<lparr> req_body = sampleBody\<lparr>body_title := Some (js ''   '')\<rparr>, req_file = None \<rparr>
     = ((400, FailureDetails DadosInvalidos [Required ''title'']), sampleState)"
proof -
  let ?rq = "\<lparr> req_body = sampleBody\<lparr>body_title := Some (js ''   '')\<rparr>, req_file = None \<rparr>"
  have b: "blankField (req_body ?rq)"
    by (simp add: blankField_def blank_def sampleBody_def js_def isWhiteSpace_def)
  have m: "\<not> missingField (req_body ?rq)"
    by (simp add: missingField_def falsy_def sampleBody_def js_def)
  have p: "postEquipments sampleRuntime sampleState ?rq
      = ((400, FailureDetails DadosInvalidos [Required ''title'']), sampleState)"
    by (simp add: eval_defs sample_defs)
  from b m p blank_field_rejected [OF b m, of sampleRuntime sampleState None]
  show ?thesis by simp
qed

section \<open>Invariants of the collection\<close>

lemma findById_Some: "findById i coll = Some e \<Longrightarrow> e \<in> set coll \<and> oid e = i"
  by (induction coll) (auto split: if_splits)

lemma findById_None: "findById i coll = None \<longleftrightarrow> i \<notin> oid ` set coll"
  by (induction coll) auto

lemma map_oid_replaceById: "oid e' = i \<Longrightarrow> map oid (replaceById i e' coll) = map oid coll"
  by (induction coll) auto

lemma set_replaceById: "set (replaceById i e' coll) \<subseteq> insert e' (set coll)"
  by (induction coll) auto

lemma set_removeById: "set (removeById i coll) \<subseteq> set coll"
  by (induction coll) auto

lemma distinct_removeById:
  "distinct (map oid coll) \<Longrightarrow> distinct (map oid (removeById i coll))"
  using set_removeById [of i] by (induction coll) auto

lemma findById_removeById:
  "distinct (map oid coll) \<Longrightarrow> findById i (removeById i coll) = None"
  by (induction coll) (auto simp: findById_None)

lemma findById_replaceById:
  "findById i coll = Some e \<Longrightarrow> oid e' = i \<Longrightarrow> findById i (replaceById i e' coll) = Some e'"
  by (induction coll) (auto split: if_splits)

lemma findById_replaceById_other:
  "j \<noteq> i \<Longrightarrow> oid e' = i \<Longrightarrow> findById j (replaceById i e' coll) = findById j coll"
  by (induction coll) auto

lemma listEquipments_state: "snd (listEquipments rt st) = st"
  by (simp add: listEquipments_def split: sum.splits)

lemma createHandler_clean:
  assumes "createHandler rt st b stored = ((c, Reported e), st')"
  shows "cleanFields e"
proof -
  note r = createHandler_Reported [OF assms]
  from r obtain t d l lab where
    "title e = trim t" "description e = trim d" "location e = trim l" "laboratory e = trim lab"
    by (auto simp: map_option_case split: option.splits)
  moreover from r have "title e \<noteq> []" "description e \<noteq> []" "location e \<noteq> []" "laboratory e \<noteq> []"
    by simp_all
  ultimately show ?thesis
    using trim_Nil_or_clean [of t] trim_Nil_or_clean [of d]
      trim_Nil_or_clean [of l] trim_Nil_or_clean [of lab]
    by (simp add: cleanFields_def)
qed

lemma postEquipments_cases:
  "equipments (snd (postEquipments rt st rq)) = equipments st \<or>
   (\<exists>e. equipments (snd (postEquipments rt st rq)) = equipments st @ [e] \<and>
        oid e \<notin> oid ` set (equipments st) \<and> cleanFields e \<and> status e = js ''pendente'')"
proof -
  from postEquipments_equipments [of rt st rq] show ?thesis
  proof
    assume "\<exists>c e. fst (postEquipments rt st rq) = (c, Reported e)"
    then obtain c e where "postEquipments rt st rq = ((c, Reported e), snd (postEquipments rt st rq))"
      by (auto simp: prod_eq_iff)
    from postEquipments_Reported [OF this] obtain stored st1 where
      u: "uploadSingle rt st (req_file rq) = Inr (stored, st1)" and
      h: "createHandler rt st1 (req_body rq) stored = ((c, Reported e), snd (postEquipments rt st rq))"
      by blast
    from createHandler_Reported [OF h] createHandler_clean [OF h] uploadSingle_equipments [OF u]
    show ?thesis by auto
  qed simp
qed

lemma putEquipment_cases:
  "equipments (snd (putEquipment rt st ident bs)) = equipments st \<or>
   (\<exists>i e s. findById i (equipments st) = Some e \<and> s \<in> set statusEnum \<and>
      equipments (snd (putEquipment rt st ident bs))
        = replaceById i (e\<lparr>status := s, updatedAt := now rt\<rparr>) (equipments st))"
  by (auto simp: putEquipment_def findByIdAndUpdate_def Let_def validateStatus_def
           split: option.splits sum.splits if_splits prod.splits)

lemma deleteEquipment_cases:
  "equipments (snd (deleteEquipment rt st ident)) = equipments st \<or>
   (\<exists>i. equipments (snd (deleteEquipment rt st ident)) = removeById i (equipments st))"
  by (auto simp: deleteEquipment_def findByIdAndDelete_def
           split: option.splits sum.splits if_splits prod.splits)

lemma app_distinct:
  assumes "distinct (map oid (equipments st))"
  shows "distinct (map oid (equipments (snd (app rt st rq))))"
proof (cases rq)
  case GET_equipments
  with assms show ?thesis by (simp add: listEquipments_state)
next
  case (POST_equipments c)
  with assms postEquipments_cases [of rt st c] show ?thesis by auto
next
  case (PUT_equipment ident bs)
  with assms putEquipment_cases [of rt st ident bs] show ?thesis
    by (auto simp: map_oid_replaceById dest: findById_Some)
next
  case (DELETE_equipment ident)
  with assms deleteEquipment_cases [of rt st ident] show ?thesis
    by (auto simp: distinct_removeById)
qed

lemma app_clean:
  assumes "\<forall>x \<in> set (equipments st). cleanFields x"
  shows "\<forall>x \<in> set (equipments (snd (app rt st rq))). cleanFields x"
proof (cases rq)
  case GET_equipments
  with assms show ?thesis by (simp add: listEquipments_state)
next
  case (POST_equipments c)
  with assms postEquipments_cases [of rt st c] show ?thesis by auto
next
  case (PUT_equipment ident bs)
  from putEquipment_cases [of rt st ident bs] show ?thesis
  proof
    assume "equipments (snd (putEquipment rt st ident bs)) = equipments st"
    with assms PUT_equipment show ?thesis by simp
  next
    assume "\<exists>i e s. findById i (equipments st) = Some e \<and> s \<in> set statusEnum \<and>
      equipments (snd (putEquipment rt st ident bs))
        = replaceById i (e\<lparr>status := s, updatedAt := now rt\<rparr>) (equipments st)"
    then obtain i e s where e: "findById i (equipments st) = Some e"
      and eq: "equipments (snd (putEquipment rt st ident bs))
        = replaceById i (e\<lparr>status := s, updatedAt := now rt\<rparr>) (equipments st)"
      by blast
    from e have "e \<in> set (equipments st)" by (simp add: findById_Some)
    with assms have "cleanFields e" by blast
    then have "cleanFields (e\<lparr>status := s, updatedAt := now rt\<rparr>)"
      by (simp add: cleanFields_def)
    with assms set_replaceById [of i "e\<lparr>status := s, updatedAt := now rt\<rparr>" "equipments st"]
    have "\<forall>x \<in> set (replaceById i (e\<lparr>status := s, updatedAt := now rt\<rparr>) (equipments st)).
            cleanFields x"
      by auto
    with eq PUT_equipment show ?thesis by simp
  qed
next
  case (DELETE_equipment ident)
  with assms deleteEquipment_cases [of rt st ident] set_removeById show ?thesis
    by (metis app.simps(4) subsetD)
qed

lemma serve_distinct:
  "distinct (map oid (equipments st)) \<Longrightarrow> distinct (map oid (equipments (serve st reqs)))"
proof (induction reqs arbitrary: st)
  case Nil
  then show ?case by simp
next
  case (Cons r reqs)
  obtain rt rq where r: "r = (rt, rq)" by (cases r)
  from Cons.prems have "distinct (map oid (equipments (snd (app rt st rq))))"
    by (rule app_distinct)
  then show ?case unfolding r serve.simps by (rule Cons.IH)
qed

lemma serve_clean:
  "\<forall>x \<in> set (equipments st). cleanFields x \<Longrightarrow>
   \<forall>x \<in> set (equipments (serve st reqs)). cleanFields x"
proof (induction reqs arbitrary: st)
  case Nil
  then show ?case by simp
next
  case (Cons r reqs)
  obtain rt rq where r: "r = (rt, rq)" by (cases r)
  from Cons.prems have "\<forall>x \<in> set (equipments (snd (app rt st rq))). cleanFields x"
    by (rule app_clean)
  then show ?case unfolding r serve.simps by (rule Cons.IH)
qed

text \<open>
  Claim C9. After every sequence of requests served from the empty state, each record of
  the collection has a title, a description, a location and a laboratory that are not
  empty and neither start nor end with white space; and a create request that is
  answered with a record stores, in these four fields, the texts of the request with the
  white space at both ends removed.
\<close>

theorem stored_fields_trimmed:
  shows "(\<forall>x \<in> set (equipments (serve emptyState reqs)). cleanFields x) \<and>
         (\<forall>rt rq code e st'. postEquipments rt st rq = ((code, Reported e), st') \<longrightarrow>
            Some (title e) = map_option trim (body_title (req_body rq)) \<and>
            Some (description e) = map_option trim (body_description (req_body rq)) \<and>
            Some (location e) = map_option trim (body_location (req_body rq)) \<and>
            Some (laboratory e) = map_option trim (body_laboratory (req_body rq)) \<and>
            cleanFields e \<and> e \<in> set (equipments st'))"
proof (intro conjI allI impI ballI)
  fix x assume "x \<in> set (equipments (serve emptyState reqs))"
  moreover have "\<forall>x \<in> set (equipments emptyState). cleanFields x"
    by (simp add: emptyState_def)
  ultimately show "cleanFields x" using serve_clean by blast
next
  fix rt rq code e st'
  assume p: "postEquipments rt st rq = ((code, Reported e), st')"
  from postEquipments_Reported [OF p] obtain stored st1
    where h: "createHandler rt st1 (req_body rq) stored = ((code, Reported e), st')"
    by blast
  note r = createHandler_Reported [OF h]
  from r show "Some (title e) = map_option trim (body_title (req_body rq))" by simp
  from r show "Some (description e) = map_option trim (body_description (req_body rq))" by simp
  from r show "Some (location e) = map_option trim (body_location (req_body rq))" by simp
  from r show "Some (laboratory e) = map_option trim (body_laboratory (req_body rq))" by simp
  from h show "cleanFields e" by (rule createHandler_clean)
  from r show "e \<in> set (equipments st')" by simp
qed

theorem stored_fields_trimmed_witness:
  "serve emptyState
     [(sampleRuntime, POST_equipments \<lparr> req_body = sampleBody, req_file = None \<rparr>)]
     = sampleState \<and>
   postEquipments secondRuntime sampleState \<lparr> req_body = secondBody, req_file = Some samplePhoto \<rparr>
     = ((201, Reported secondEquipment), secondState) \<and>
   body_title secondBody = Some (js ''  Monitor piscando '') \<and>
   title secondEquipment = js ''Monitor piscando'' \<and>
   cleanFields sampleEquipment \<and> cleanFields secondEquipment"
proof -
  note t = stored_fields_trimmed [of
      "[(sampleRuntime, POST_equipments \<lparr> req_body = sampleBody, req_file = None \<rparr>)]"
      sampleState]
  from t have "cleanFields sampleEquipment"
    unfolding sample_served by (simp add: sampleState_def)
  moreover from t second_post have "cleanFields secondEquipment" by blast
  moreover have "body_title secondBody = Some (js ''  Monitor piscando '')"
    "title secondEquipment = js ''Monitor piscando''"
    by (simp_all add: secondBody_def secondEquipment_def)
  ultimately show ?thesis using sample_served second_post by simp
qed

lemma validText_fields:
  "validText b \<Longrightarrow>
   \<exists>t d l lab. body_title b = Some t \<and> body_description b = Some d \<and>
     body_location b = Some l \<and> body_laboratory b = Some lab \<and>
     trim t \<noteq> [] \<and> trim d \<noteq> [] \<and> trim l \<noteq> [] \<and> trim lab \<noteq> [] \<and>
     length (trim t) \<le> 100 \<and> length (trim d) \<le> 500 \<and>
     length (trim l) \<le> 100 \<and> length (trim lab) \<le> 100"
  by (auto simp: validText_def validField_def split: option.splits)

lemma storedDate_cast:
  "schemaCastDate rt (case body_datetime b of None \<Rightarrow> DateObject (now rt)
       | Some v \<Rightarrow> if v = [] then DateObject (now rt) else DateString v) = storedDate rt b"
  by (simp add: schemaCastDate_def storedDate_def split: option.splits)

lemma trim_nonempty: "trim t \<noteq> [] \<Longrightarrow> t \<noteq> []"
  using trim_Nil by auto

text \<open>
  Claim C7, amended. The handler does not check \<open>datetime\<close> itself, but the schema casts
  it to a Date. For a create request with four valid texts, with the database connected
  and an unused new id: when \<open>datetime\<close> is absent or empty the request is answered 201
  and the record stores the time of the request; when it is a string the Date cast
  accepts, the request is answered 201 and the record stores the date of the cast; and
  when the Date cast rejects the string, the request is answered 400 with the cast
  failure of \<open>datetime\<close> and the state is as before.
\<close>

theorem datetime_cast_decides:
  assumes "validText b" "connected rt" "newObjectId rt \<notin> oid ` set (equipments st)"
  shows "(\<forall>w. storedDate rt b = Some w \<longrightarrow>
            (\<exists>e. createHandler rt st b stored
                    = ((201, Reported e), st\<lparr>equipments := equipments st @ [e]\<rparr>) \<and>
                  datetime e = w)) \<and>
         (storedDate rt b = None \<longrightarrow>
            createHandler rt st b stored
              = ((400, FailureDetails DadosInvalidos [CastFailed ''datetime'']), st))"
proof -
  from validText_fields [OF assms(1)] obtain t d l lab where
    f: "body_title b = Some t" "body_description b = Some d"
       "body_location b = Some l" "body_laboratory b = Some lab"
    and v: "trim t \<noteq> []" "trim d \<noteq> []" "trim l \<noteq> []" "trim lab \<noteq> []"
       "length (trim t) \<le> 100" "length (trim d) \<le> 500"
       "length (trim l) \<le> 100" "length (trim lab) \<le> 100"
    by blast
  from v have ne: "t \<noteq> []" "d \<noteq> []" "l \<noteq> []" "lab \<noteq> []"
    by (auto dest: trim_nonempty)
  let ?dt = "case body_datetime b of None \<Rightarrow> DateObject (now rt)
       | Some v \<Rightarrow> if v = [] then DateObject (now rt) else DateString v"
  have h: "createHandler rt st b stored =
     (case save rt (equipments st)
             (newEquipment rt (trim t) (trim d) (trim l) (trim lab) ?dt stored (js ''pendente'')) of
        Inr (doc, coll) \<Rightarrow> ((201, Reported doc), st\<lparr>equipments := coll\<rparr>)
      | Inl (ValidationError errs) \<Rightarrow> ((400, FailureDetails DadosInvalidos errs), st)
      | Inl _ \<Rightarrow> ((500, Failure ErroInternoSalvar), st))"
    using f ne by (simp add: createHandler_def)
  show ?thesis
  proof (intro conjI allI impI)
    fix w assume "storedDate rt b = Some w"
    then have c: "schemaCastDate rt ?dt = Some w" by (simp add: storedDate_cast)
    let ?e = "\<lparr> oid = newObjectId rt, title = trim (trim t), description = trim (trim d),
           location = trim (trim l), laboratory = trim (trim lab), photo = stored,
           datetime = w, status = js ''pendente'', createdAt = now rt, updatedAt = now rt \<rparr>"
    from v have "newEquipment rt (trim t) (trim d) (trim l) (trim lab) ?dt stored (js ''pendente'')
        = Inr ?e"
      by (intro newEquipment_ok [OF c]) (simp_all add: trim_idem pendente_enum)
    with assms(2,3) have "createHandler rt st b stored
        = ((201, Reported ?e), st\<lparr>equipments := equipments st @ [?e]\<rparr>)"
      by (simp add: h save_def insertOne_def)
    then show "\<exists>e. createHandler rt st b stored
                    = ((201, Reported e), st\<lparr>equipments := equipments st @ [e]\<rparr>) \<and>
                  datetime e = w"
      by (intro exI [of _ ?e]) simp
  next
    assume "storedDate rt b = None"
    then have c: "schemaCastDate rt ?dt = None" by (simp add: storedDate_cast)
    from v have "newEquipment rt (trim t) (trim d) (trim l) (trim lab) ?dt stored (js ''pendente'')
        = Inl (ValidationError [CastFailed ''datetime''])"
      by (simp add: newEquipment_def c trim_idem validateText_def validateStatus_def pendente_enum)
    then show "createHandler rt st b stored
              = ((400, FailureDetails DadosInvalidos [CastFailed ''datetime'']), st)"
      by (simp add: h save_def)
  qed
qed

theorem datetime_cast_decides_witness:
  "validText secondBody \<and> connected secondRuntime \<and>
   newObjectId secondRuntime \<notin> oid ` set (equipments sampleState) \<and>
   storedDate secondRuntime secondBody = Some 1704067200000 \<and>
   createHandler secondRuntime sampleState secondBody None
     = ((201, Reported (secondEquipment\<lparr>photo := None\<rparr>)),
        sampleState\<lparr>equipments := [sampleEquipment, secondEquipment\<lparr>photo := None\<rparr>]\<rparr>) \<and>
   storedDate secondRuntime (secondBody\<lparr>body_datetime := Some (js ''abc'')\<rparr>) = None \<and>
   createHandler secondRuntime sampleState (secondBody\<lparr>body_datetime := Some (js ''abc'')\<rparr>) None
     = ((400, FailureDetails DadosInvalidos [CastFailed ''datetime'']), sampleState)"
proof -
  have v: "validText secondBody"
    by (simp add: validText_def validField_def secondBody_def trim_def isWhiteSpace_def js_def)
  then have v': "validText (secondBody\<lparr>body_datetime := Some (js ''abc'')\<rparr>)"
    by (simp add: validText_def)
  have c: "connected secondRuntime" by (simp add: secondRuntime_def sampleRuntime_def)
  have n: "newObjectId secondRuntime \<notin> oid ` set (equipments sampleState)"
    by (simp add: secondRuntime_def sampleState_def sampleEquipment_def)
  have d: "storedDate secondRuntime secondBody = Some 1704067200000"
    by (simp add: storedDate_def secondBody_def secondRuntime_def sampleRuntime_def)
       (simp add: js_def)
  have d': "storedDate secondRuntime (secondBody\<lparr>body_datetime := Some (js ''abc'')\<rparr>) = None"
    by (simp add: storedDate_def secondRuntime_def sampleRuntime_def js_def)
  have e: "createHandler secondRuntime sampleState secondBody None
     = ((201, Reported (secondEquipment\<lparr>photo := None\<rparr>)),
        sampleState\<lparr>equipments := [sampleEquipment, secondEquipment\<lparr>photo := None\<rparr>]\<rparr>)"
    by (simp add: eval_defs sample_defs)
  from datetime_cast_decides [OF v' c n, of None] d'
  have "createHandler secondRuntime sampleState (secondBody\<lparr>body_datetime := Some (js ''abc'')\<rparr>) None
     = ((400, FailureDetails DadosInvalidos [CastFailed ''datetime'']), sampleState)"
    by blast
  with v c n d d' e datetime_cast_decides [OF v c n, of None] show ?thesis by simp
qed

lemma sampleBody_valid: "validText sampleBody"
  by (simp add: validText_def validField_def sampleBody_def trim_def isWhiteSpace_def js_def)

text \<open>
  Claim C7 as stated fails. The request of the first example is valid and answered 201;
  the same request with the \<open>datetime\<close> \<open>abc\<close>, which is an Invalid Date, is answered
  400 and stores nothing.
\<close>

theorem arbitrary_datetime_counterexample:
  "validText sampleBody \<and>
   postEquipments sampleRuntime emptyState \<lparr> req_body = sampleBody, req_file = None \<rparr>
     = ((201, Reported sampleEquipment), sampleState) \<and>
   castDate sampleRuntime (js ''abc'') = None \<and>
   postEquipments sampleRuntime emptyState
       \<lparr> req_body = sampleBody\<lparr>body_datetime := Some (js ''abc'')\<rparr>, req_file = None \<rparr>
     = ((400, FailureDetails DadosInvalidos [CastFailed ''datetime'']), emptyState)"
proof -
  have "castDate sampleRuntime (js ''abc'') = None"
    by (simp add: sampleRuntime_def js_def)
  moreover have "postEquipments sampleRuntime emptyState
       \<lparr> req_body = sampleBody\<lparr>body_datetime := Some (js ''abc'')\<rparr>, req_file = None \<rparr>
     = ((400, FailureDetails DadosInvalidos [CastFailed ''datetime'']), emptyState)"
    by (simp add: eval_defs sample_defs)
  ultimately show ?thesis using sampleBody_valid sample_post by simp
qed

section \<open>Listing\<close>

lemma newestFirst_sort_key: "newestFirst (sort_key (\<lambda>e. - createdAt e) es)"
proof -
  have "sorted (map (\<lambda>e. - createdAt e) (sort_key (\<lambda>e. - createdAt e) es))"
    by (rule sorted_sort_key)
  then show ?thesis by (simp add: newestFirst_def sorted_wrt_map)
qed

text \<open>
  Claim C2. With the database connected, the list operation answers 200 with a sequence
  that holds exactly the records of the collection, each as often as the collection
  does, ordered by \<open>createdAt\<close> from the newest to the oldest; on an empty collection
  the answer is 200 with the empty sequence.
\<close>

theorem list_newest_first:
  assumes "connected rt"
  shows "(\<exists>found. listEquipments rt st = ((200, Listing found), st) \<and>
            mset found = mset (equipments st) \<and> newestFirst found) \<and>
         listEquipments rt (st\<lparr>equipments := []\<rparr>) = ((200, Listing []), st\<lparr>equipments := []\<rparr>)"
  using assms by (simp add: listEquipments_def findSorted_def newestFirst_sort_key)

theorem list_newest_first_witness:
  "connected sampleRuntime \<and>
   equipments secondState = [sampleEquipment, secondEquipment] \<and>
   listEquipments sampleRuntime secondState
     = ((200, Listing [secondEquipment, sampleEquipment]), secondState) \<and>
   newestFirst [secondEquipment, sampleEquipment] \<and>
   listEquipments sampleRuntime emptyState = ((200, Listing []), emptyState)"
proof -
  have c: "connected sampleRuntime" by (simp add: sampleRuntime_def)
  have l: "listEquipments sampleRuntime secondState
     = ((200, Listing [secondEquipment, sampleEquipment]), secondState)"
    by (simp add: listEquipments_def findSorted_def sample_defs)
  have e: "emptyState\<lparr>equipments := []\<rparr> = emptyState" by (simp add: emptyState_def)
  from list_newest_first [OF c, of secondState] l
  have "newestFirst [secondEquipment, sampleEquipment]" by auto
  moreover from list_newest_first [OF c, of emptyState] e
  have "listEquipments sampleRuntime emptyState = ((200, Listing []), emptyState)" by simp
  ultimately show ?thesis using c l by (simp add: secondState_def)
qed

section \<open>Update and delete\<close>

lemma putEquipment_invalid:
  "bs \<notin> Some ` set statusEnum \<Longrightarrow> putEquipment rt st ident bs = ((400, Failure StatusInvalido), st)"
  by (auto simp: putEquipment_def statusEnum_def split: option.splits)

lemma empty_not_status: "[] \<notin> set statusEnum"
  by (simp add: statusEnum_def js_def)

lemma putEquipment_valid:
  assumes "s \<in> set statusEnum"
  shows "putEquipment rt st ident (Some s) =
     (case findByIdAndUpdate rt (equipments st) ident s of
        Inl _ \<Rightarrow> ((500, Failure ErroAtualizar), st)
      | Inr (None, _) \<Rightarrow> ((404, Failure NaoEncontrado), st)
      | Inr (Some e, coll) \<Rightarrow> ((200, Updated e), st\<lparr>equipments := coll\<rparr>))"
proof -
  from assms empty_not_status have "s \<noteq> []" by auto
  with assms show ?thesis by (simp add: putEquipment_def statusEnum_def)
qed

lemma putEquipment_absent:
  "s \<in> set statusEnum \<Longrightarrow> connected rt \<Longrightarrow> castObjectId rt ident = Some i \<Longrightarrow>
   findById i (equipments st) = None \<Longrightarrow>
   putEquipment rt st ident (Some s) = ((404, Failure NaoEncontrado), st)"
  by (simp add: putEquipment_valid findByIdAndUpdate_def validateStatus_def)

lemma putEquipment_present:
  "s \<in> set statusEnum \<Longrightarrow> connected rt \<Longrightarrow> castObjectId rt ident = Some i \<Longrightarrow>
   findById i (equipments st) = Some e \<Longrightarrow>
   putEquipment rt st ident (Some s) =
     ((200, Updated (e\<lparr>status := s, updatedAt := now rt\<rparr>)),
      st\<lparr>equipments := replaceById i (e\<lparr>status := s, updatedAt := now rt\<rparr>) (equipments st)\<rparr>)"
  by (simp add: putEquipment_valid findByIdAndUpdate_def validateStatus_def Let_def)

lemma putEquipment_404:
  assumes "fst (putEquipment rt st ident bs) = (404, b)"
  shows "\<exists>s i. bs = Some s \<and> s \<in> set statusEnum \<and> connected rt \<and>
           castObjectId rt ident = Some i \<and> findById i (equipments st) = None"
proof (cases "bs \<in> Some ` set statusEnum")
  case False
  with assms show ?thesis by (simp add: putEquipment_invalid)
next
  case True
  then obtain s where s: "bs = Some s" "s \<in> set statusEnum" by auto
  with assms show ?thesis
    by (auto simp: putEquipment_valid findByIdAndUpdate_def validateStatus_def Let_def
             split: option.splits if_splits)
qed

lemma deleteEquipment_absent:
  "connected rt \<Longrightarrow> castObjectId rt ident = Some i \<Longrightarrow> findById i (equipments st) = None \<Longrightarrow>
   deleteEquipment rt st ident = ((404, Failure NaoEncontrado), st)"
  by (simp add: deleteEquipment_def findByIdAndDelete_def)

lemma deleteEquipment_present:
  "connected rt \<Longrightarrow> castObjectId rt ident = Some i \<Longrightarrow> findById i (equipments st) = Some e \<Longrightarrow>
   deleteEquipment rt st ident = ((200, Excluded e), st\<lparr>equipments := removeById i (equipments st)\<rparr>)"
  by (simp add: deleteEquipment_def findByIdAndDelete_def)

text \<open>
  Claim C3, amended. With the database connected and an id that the ObjectId cast
  accepts: when no record has the id, an update with a status of the enum and a delete
  are both answered 404; and when, after any sequence of requests served from the empty
  state, a record has the id, the first delete is answered 200 with that record and a
  second delete of the same id, in the state the first one leaves, is answered 404.
\<close>

theorem absent_id_not_found:
  assumes "connected rt" "castObjectId rt ident = Some i"
  shows "(findById i (equipments st) = None \<longrightarrow>
            (s \<in> set statusEnum \<longrightarrow>
               putEquipment rt st ident (Some s) = ((404, Failure NaoEncontrado), st)) \<and>
            deleteEquipment rt st ident = ((404, Failure NaoEncontrado), st)) \<and>
         (\<forall>e. findById i (equipments (serve emptyState reqs)) = Some e \<longrightarrow>
            (\<exists>st'. deleteEquipment rt (serve emptyState reqs) ident = ((200, Excluded e), st') \<and>
                   deleteEquipment rt st' ident = ((404, Failure NaoEncontrado), st')))"
proof (intro conjI impI allI)
  assume "findById i (equipments st) = None" "s \<in> set statusEnum"
  with assms show "putEquipment rt st ident (Some s) = ((404, Failure NaoEncontrado), st)"
    by (simp add: putEquipment_absent)
next
  assume "findById i (equipments st) = None"
  with assms show "deleteEquipment rt st ident = ((404, Failure NaoEncontrado), st)"
    by (simp add: deleteEquipment_absent)
next
  fix e
  define s0 where "s0 = serve emptyState reqs"
  assume f: "findById i (equipments (serve emptyState reqs)) = Some e"
  let ?st = "s0\<lparr>equipments := removeById i (equipments s0)\<rparr>"
  from assms f have 1: "deleteEquipment rt s0 ident = ((200, Excluded e), ?st)"
    unfolding s0_def by (rule deleteEquipment_present)
  have "distinct (map oid (equipments emptyState))" by (simp add: emptyState_def)
  then have "distinct (map oid (equipments s0))" unfolding s0_def by (rule serve_distinct)
  then have "findById i (equipments ?st) = None" by (simp add: findById_removeById)
  with assms have "deleteEquipment rt ?st ident = ((404, Failure NaoEncontrado), ?st)"
    by (rule deleteEquipment_absent)
  with 1 show "\<exists>st'. deleteEquipment rt (serve emptyState reqs) ident = ((200, Excluded e), st') \<and>
                   deleteEquipment rt st' ident = ((404, Failure NaoEncontrado), st')"
    unfolding s0_def by blast
qed

lemma hex_sampleId: "castObjectId sampleRuntime sampleId = Some 0x507f1f77bcf86cd799439011"
  by (simp add: sampleRuntime_def hexObjectId_def sampleId_def js_def hexDigit_def)

lemma hex_absentId: "castObjectId sampleRuntime absentId = Some 0x507f1f77bcf86cd799439099"
  by (simp add: sampleRuntime_def hexObjectId_def absentId_def js_def hexDigit_def)

lemma hex_unknown: "castObjectId sampleRuntime (js ''unknown'') = None"
  by (simp add: sampleRuntime_def hexObjectId_def js_def)

theorem absent_id_not_found_witness:
  "connected sampleRuntime \<and>
   serve emptyState
     [(sampleRuntime, POST_equipments \<lparr> req_body = sampleBody, req_file = None \<rparr>)]
     = sampleState \<and>
   castObjectId sampleRuntime absentId = Some 0x507f1f77bcf86cd799439099 \<and>
   findById 0x507f1f77bcf86cd799439099 (equipments sampleState) = None \<and>
   js ''concluido'' \<in> set statusEnum \<and>
   putEquipment sampleRuntime sampleState absentId (Some (js ''concluido''))
     = ((404, Failure NaoEncontrado), sampleState) \<and>
   deleteEquipment sampleRuntime sampleState absentId = ((404, Failure NaoEncontrado), sampleState) \<and>
   castObjectId sampleRuntime sampleId = Some 0x507f1f77bcf86cd799439011 \<and>
   findById 0x507f1f77bcf86cd799439011 (equipments sampleState) = Some sampleEquipment \<and>
   deleteEquipment sampleRuntime sampleState sampleId = ((200, Excluded sampleEquipment), emptyState) \<and>
   deleteEquipment sampleRuntime emptyState sampleId = ((404, Failure NaoEncontrado), emptyState)"
proof -
  have c: "connected sampleRuntime" by (simp add: sampleRuntime_def)
  have a: "findById 0x507f1f77bcf86cd799439099 (equipments sampleState) = None"
    by (simp add: sampleState_def sampleEquipment_def)
  have p: "findById 0x507f1f77bcf86cd799439011 (equipments sampleState) = Some sampleEquipment"
    by (simp add: sampleState_def sampleEquipment_def)
  have s: "js ''concluido'' \<in> set statusEnum" by (simp add: statusEnum_def)
  have d: "deleteEquipment sampleRuntime sampleState sampleId = ((200, Excluded sampleEquipment), emptyState)"
    using c hex_sampleId p
    by (simp add: deleteEquipment_def findByIdAndDelete_def sampleState_def emptyState_def sampleEquipment_def)
  note t1 = absent_id_not_found [OF c hex_absentId, of sampleState "js ''concluido''"]
  note t2 = absent_id_not_found [OF c hex_sampleId, of sampleState _
      "[(sampleRuntime, POST_equipments \<lparr> req_body = sampleBody, req_file = None \<rparr>)]",
      unfolded sample_served]
  from t2 p d
  have "deleteEquipment sampleRuntime emptyState sampleId = ((404, Failure NaoEncontrado), emptyState)"
    by auto
  with t1 a s c p d sample_served hex_absentId hex_sampleId show ?thesis by simp
qed

text \<open>
  Claim C3 as stated fails. For an id that no record has, an update with a status
  outside the enum is answered 400, not 404; and for the id \<open>unknown\<close> of scenario 3,
  which is no ObjectId and so the id of no record, the cast throws and update and
  delete are answered 500.
\<close>

theorem absent_id_counterexample:
  "castObjectId sampleRuntime absentId = Some 0x507f1f77bcf86cd799439099 \<and>
   findById 0x507f1f77bcf86cd799439099 (equipments sampleState) = None \<and>
   putEquipment sampleRuntime sampleState absentId (Some (js ''quebrado''))
     = ((400, Failure StatusInvalido), sampleState) \<and>
   castObjectId sampleRuntime (js ''unknown'') = None \<and>
   putEquipment sampleRuntime sampleState (js ''unknown'') (Some (js ''concluido''))
     = ((500, Failure ErroAtualizar), sampleState) \<and>
   deleteEquipment sampleRuntime sampleState (js ''unknown'')
     = ((500, Failure ErroExcluir), sampleState)"
proof -
  have "findById 0x507f1f77bcf86cd799439099 (equipments sampleState) = None"
    by (simp add: sampleState_def sampleEquipment_def)
  moreover have "putEquipment sampleRuntime sampleState absentId (Some (js ''quebrado''))
     = ((400, Failure StatusInvalido), sampleState)"
    by (simp add: putEquipment_def js_def)
  moreover have "putEquipment sampleRuntime sampleState (js ''unknown'') (Some (js ''concluido''))
     = ((500, Failure ErroAtualizar), sampleState)"
    using hex_unknown by (simp add: putEquipment_def findByIdAndUpdate_def js_def)
  moreover have "deleteEquipment sampleRuntime sampleState (js ''unknown'')
     = ((500, Failure ErroExcluir), sampleState)"
    using hex_unknown by (simp add: deleteEquipment_def findByIdAndDelete_def)
  ultimately show ?thesis using hex_absentId hex_unknown by simp
qed

text \<open>
  Claim C4. An update whose status is absent or not one of \<open>pendente\<close>,
  \<open>em_manutencao\<close>, \<open>concluido\<close> is answered 400 and leaves the state, hence the status
  of every record, as it is. An update with a status of the enum, for the id of a record
  of the collection and with the database connected, is answered 200 with that record
  under its new status (and a new \<open>updatedAt\<close>, every other field as before); the
  collection then holds the updated record under the id and every other record as
  before.
\<close>

theorem update_status_checked:
  "(bs \<notin> Some ` set statusEnum \<longrightarrow>
      putEquipment rt st ident bs = ((400, Failure StatusInvalido), st)) \<and>
   (s \<in> set statusEnum \<and> connected rt \<and> castObjectId rt ident = Some i \<and>
    findById i (equipments st) = Some e \<longrightarrow>
      (\<exists>st'. putEquipment rt st ident (Some s)
               = ((200, Updated (e\<lparr>status := s, updatedAt := now rt\<rparr>)), st') \<and>
             findById i (equipments st') = Some (e\<lparr>status := s, updatedAt := now rt\<rparr>) \<and>
             (\<forall>j. j \<noteq> i \<longrightarrow> findById j (equipments st') = findById j (equipments st)) \<and>
             uploads st' = uploads st))"
proof (intro conjI impI)
  assume "bs \<notin> Some ` set statusEnum"
  then show "putEquipment rt st ident bs = ((400, Failure StatusInvalido), st)"
    by (rule putEquipment_invalid)
next
  let ?e = "e\<lparr>status := s, updatedAt := now rt\<rparr>"
  let ?st = "st\<lparr>equipments := replaceById i ?e (equipments st)\<rparr>"
  assume a: "s \<in> set statusEnum \<and> connected rt \<and> castObjectId rt ident = Some i \<and>
    findById i (equipments st) = Some e"
  then have p: "putEquipment rt st ident (Some s) = ((200, Updated ?e), ?st)"
    by (simp add: putEquipment_present)
  from a have "oid e = i" using findById_Some by blast
  then have o: "oid ?e = i" by simp
  from a o have f: "findById i (equipments ?st) = Some ?e"
    by (simp add: findById_replaceById)
  from o have "\<forall>j. j \<noteq> i \<longrightarrow> findById j (equipments ?st) = findById j (equipments st)"
    by (simp add: findById_replaceById_other)
  with p f show "\<exists>st'. putEquipment rt st ident (Some s) = ((200, Updated ?e), st') \<and>
             findById i (equipments st') = Some ?e \<and>
             (\<forall>j. j \<noteq> i \<longrightarrow> findById j (equipments st') = findById j (equipments st)) \<and>
             uploads st' = uploads st"
    by (intro exI [of _ ?st]) simp
qed

theorem update_status_checked_witness:
  "Some (js ''quebrado'') \<notin> Some ` set statusEnum \<and>
   putEquipment sampleRuntime sampleState sampleId (Some (js ''quebrado''))
     = ((400, Failure StatusInvalido), sampleState) \<and>
   js ''em_manutencao'' \<in> set statusEnum \<and> connected secondRuntime \<and>
   castObjectId secondRuntime sampleId = Some 0x507f1f77bcf86cd799439011 \<and>
   findById 0x507f1f77bcf86cd799439011 (equipments sampleState) = Some sampleEquipment \<and>
   putEquipment secondRuntime sampleState sampleId (Some (js ''em_manutencao''))
     = ((200, Updated (sampleEquipment\<lparr>status := js ''em_manutencao'', updatedAt := 1704067260000\<rparr>)),
        \<lparr> equipments = [sampleEquipment\<lparr>status := js ''em_manutencao'', updatedAt := 1704067260000\<rparr>],
          uploads = [] \<rparr>)"
proof -
  have q: "Some (js ''quebrado'') \<notin> Some ` set statusEnum"
    by (simp add: statusEnum_def js_def)
  have m: "js ''em_manutencao'' \<in> set statusEnum" by (simp add: statusEnum_def)
  have c: "connected secondRuntime" by (simp add: secondRuntime_def sampleRuntime_def)
  have h: "castObjectId secondRuntime sampleId = Some 0x507f1f77bcf86cd799439011"
    using hex_sampleId by (simp add: secondRuntime_def)
  have p: "findById 0x507f1f77bcf86cd799439011 (equipments sampleState) = Some sampleEquipment"
    by (simp add: sampleState_def sampleEquipment_def)
  have n: "now secondRuntime = 1704067260000" by (simp add: secondRuntime_def)
  have u: "putEquipment secondRuntime sampleState sampleId (Some (js ''em_manutencao''))
     = ((200, Updated (sampleEquipment\<lparr>status := js ''em_manutencao'', updatedAt := 1704067260000\<rparr>)),
        \<lparr> equipments = [sampleEquipment\<lparr>status := js ''em_manutencao'', updatedAt := 1704067260000\<rparr>],
          uploads = [] \<rparr>)"
    using m c h p n
      update_status_checked [of "Some (js ''quebrado'')" secondRuntime sampleState sampleId
        "js ''em_manutencao''" "0x507f1f77bcf86cd799439011" sampleEquipment]
    by (simp add: putEquipment_present) (simp add: sampleState_def sampleEquipment_def)
  note t = update_status_checked [of "Some (js ''quebrado'')" sampleRuntime sampleState sampleId]
  from t q have "putEquipment sampleRuntime sampleState sampleId (Some (js ''quebrado''))
     = ((400, Failure StatusInvalido), sampleState)" by blast
  with q m c h p u show ?thesis by simp
qed

text \<open>
  Claim C8. The status is checked before the record is looked up: an update whose status
  is absent or outside the enum is answered 400 for every id, also one that no record
  has; and an update is answered 404 only when its status is in the enum (and the id
  casts to an ObjectId that no record has).
\<close>

theorem status_checked_before_lookup:
  "(bs \<notin> Some ` set statusEnum \<longrightarrow>
      putEquipment rt st ident bs = ((400, Failure StatusInvalido), st)) \<and>
   (fst (fst (putEquipment rt st ident bs)) = 404 \<longrightarrow>
      (\<exists>s i. bs = Some s \<and> s \<in> set statusEnum \<and> castObjectId rt ident = Some i \<and>
             findById i (equipments st) = None))"
proof (intro conjI impI)
  assume "bs \<notin> Some ` set statusEnum"
  then show "putEquipment rt st ident bs = ((400, Failure StatusInvalido), st)"
    by (rule putEquipment_invalid)
next
  assume "fst (fst (putEquipment rt st ident bs)) = 404"
  then have "fst (putEquipment rt st ident bs) = (404, snd (fst (putEquipment rt st ident bs)))"
    by (simp add: prod_eq_iff)
  from putEquipment_404 [OF this]
  show "\<exists>s i. bs = Some s \<and> s \<in> set statusEnum \<and> castObjectId rt ident = Some i \<and>
             findById i (equipments st) = None"
    by blast
qed

theorem status_checked_before_lookup_witness:
  "Some (js ''quebrado'') \<notin> Some ` set statusEnum \<and>
   castObjectId sampleRuntime absentId = Some 0x507f1f77bcf86cd799439099 \<and>
   findById 0x507f1f77bcf86cd799439099 (equipments sampleState) = None \<and>
   putEquipment sampleRuntime sampleState absentId (Some (js ''quebrado''))
     = ((400, Failure StatusInvalido), sampleState) \<and>
   fst (fst (putEquipment sampleRuntime sampleState absentId (Some (js ''concluido'')))) = 404 \<and>
   js ''concluido'' \<in> set statusEnum"
proof -
  have q: "Some (js ''quebrado'') \<notin> Some ` set statusEnum"
    by (simp add: statusEnum_def js_def)
  have a: "findById 0x507f1f77bcf86cd799439099 (equipments sampleState) = None"
    by (simp add: sampleState_def sampleEquipment_def)
  have n: "fst (fst (putEquipment sampleRuntime sampleState absentId (Some (js ''concluido'')))) = 404"
    using hex_absentId a
    by (simp add: putEquipment_def findByIdAndUpdate_def validateStatus_def statusEnum_def)
       (simp add: sampleRuntime_def js_def)
  from status_checked_before_lookup [of "Some (js ''quebrado'')" sampleRuntime sampleState absentId] q
  have 1: "putEquipment sampleRuntime sampleState absentId (Some (js ''quebrado''))
     = ((400, Failure StatusInvalido), sampleState)" by blast
  from status_checked_before_lookup [of "Some (js ''concluido'')" sampleRuntime sampleState absentId] n
  have 2: "js ''concluido'' \<in> set statusEnum" by blast
  from q a n 1 2 hex_absentId show ?thesis by simp
qed

section \<open>Uploads\<close>

text \<open>
  Claim C6, evaluated. The create request of the first example with a photo part of type
  \<open>text/plain\<close> is answered 500 with the text of an internal error, not 400: the error of
  the file filter is no MulterError, so the error middleware does not recognise it. The
  same request with an image of 5 MB and one byte is answered 400. Neither changes the
  state.
\<close>

theorem rejected_uploads:
  "postEquipments sampleRuntime sampleState \<lparr> req_body = sampleBody, req_file = Some textFile \<rparr>
     = ((500, Failure ErroInternoServidor), sampleState) \<and>
   postEquipments sampleRuntime sampleState \<lparr> req_body = sampleBody, req_file = Some largePhoto \<rparr>
     = ((400, Failure ArquivoMuitoGrande), sampleState)"
proof -
  have "\<not> startsWith (mimetype textFile) (js ''image/'')"
    by (simp add: textFile_def startsWith_def js_def)
  moreover have "startsWith (mimetype largePhoto) (js ''image/'')" "fileSizeLimit < bytes largePhoto"
    by (simp_all add: largePhoto_def startsWith_def js_def fileSizeLimit_def)
  ultimately show ?thesis by (simp add: post_not_image post_too_large)
qed

end
